theory Spec2Isabelle
  imports Complex_Main "HOL-Library.Multiset" "HOL-Library.Sublist" "HOL-Library.Log_Nat"
begin

section \<open>Shared schema (shared/schema.ts)\<close>

text \<open>
  The rows of the three tables, and the insert shapes derived from them by
  \<^verbatim>\<open>createInsertSchema(...).pick/omit\<close>.  A JavaScript number is the \<^typ>\<open>real\<close> it
  denotes: sensor readings are only passed on, and where the source computes with
  numbers the rounding of double precision is written out (section \<open>JavaScript
  numbers\<close>).  Ids and counters, which only ever start at an integer and are incremented
  by one, are \<^typ>\<open>nat\<close>; a \<^verbatim>\<open>Date\<close> is its \<^verbatim>\<open>getTime()\<close> value, an \<^typ>\<open>int\<close> of
  milliseconds.  A nullable or optional field is an \<^typ>\<open>'a option\<close>.
\<close>

record InsertUser =
  iu_username :: string
  iu_password :: string

record User =
  u_id :: nat
  u_username :: string
  u_password :: string

record InsertSensorData =
  isd_latitude :: real
  isd_longitude :: real
  isd_accuracy :: "real option"
  isd_accelerometerX :: real
  isd_accelerometerY :: real
  isd_accelerometerZ :: real

record SensorData =
  sd_id :: nat
  sd_latitude :: real
  sd_longitude :: real
  sd_accuracy :: "real option"
  sd_accelerometerX :: real
  sd_accelerometerY :: real
  sd_accelerometerZ :: real
  sd_timestamp :: int

record InsertTransmissionLog =
  itl_esp32IpAddress :: string
  itl_sensorDataId :: "nat option"
  itl_success :: bool
  itl_errorMessage :: "string option"

record TransmissionLog =
  tl_id :: nat
  tl_esp32IpAddress :: string
  tl_sensorDataId :: "nat option"
  tl_success :: bool
  tl_errorMessage :: "string option"
  tl_timestamp :: int

section \<open>The in-memory store (server/storage.ts, class MemStorage)\<close>

text \<open>
  A JavaScript \<^verbatim>\<open>Map\<close> keeps its entries in insertion order; \<^verbatim>\<open>set\<close> on a key that
  is present replaces the value where it stands, and on a new key appends the entry.
  The model is an association list in that order.
\<close>

type_synonym 'v js_map = "(nat \<times> 'v) list"

fun map_set :: "nat \<Rightarrow> 'v \<Rightarrow> 'v js_map \<Rightarrow> 'v js_map" where
  "map_set k v [] = [(k, v)]"
| "map_set k v (p # ps) = (if fst p = k then (k, v) # ps else p # map_set k v ps)"

definition map_get :: "'v js_map \<Rightarrow> nat \<Rightarrow> 'v option" where
  "map_get m k = map_of m k"

definition map_values :: "'v js_map \<Rightarrow> 'v list" where
  "map_values m = map snd m"

definition map_keys :: "'v js_map \<Rightarrow> nat list" where
  "map_keys m = map fst m"

record MemStorage =
  users :: "User js_map"
  sensorData :: "SensorData js_map"
  transmissionLogs :: "TransmissionLog js_map"
  currentUserId :: nat
  currentSensorDataId :: nat
  currentTransmissionLogId :: nat

text \<open>The constructor: three empty maps, three counters at 1.\<close>

definition MemStorage_new :: MemStorage where
  "MemStorage_new =
     \<lparr>users = [], sensorData = [], transmissionLogs = [],
      currentUserId = 1, currentSensorDataId = 1, currentTransmissionLogId = 1\<rparr>"

definition getUser :: "MemStorage \<Rightarrow> nat \<Rightarrow> User option" where
  "getUser st i = map_get (users st) i"

definition getUserByUsername :: "MemStorage \<Rightarrow> string \<Rightarrow> User option" where
  "getUserByUsername st name = find (\<lambda>u. u_username u = name) (map_values (users st))"

text \<open>
  Each create reads the counter, increments it (\<^verbatim>\<open>this.currentXId++\<close>), builds the row
  from the insert shape, the id and (for samples and logs) \<^verbatim>\<open>new Date()\<close>, stores it
  under the id, and returns it.  The clock reading is the argument \<open>now\<close>.
\<close>

definition createUser :: "MemStorage \<Rightarrow> InsertUser \<Rightarrow> User \<times> MemStorage" where
  "createUser st insertUser =
     (let i = currentUserId st;
          user = \<lparr>u_id = i, u_username = iu_username insertUser,
                  u_password = iu_password insertUser\<rparr>
      in (user, st\<lparr>currentUserId := i + 1, users := map_set i user (users st)\<rparr>))"

definition createSensorData ::
  "MemStorage \<Rightarrow> InsertSensorData \<Rightarrow> int \<Rightarrow> SensorData \<times> MemStorage" where
  "createSensorData st insertData now =
     (let i = currentSensorDataId st;
          data = \<lparr>sd_id = i,
                  sd_latitude = isd_latitude insertData,
                  sd_longitude = isd_longitude insertData,
                  sd_accuracy = isd_accuracy insertData,
                  sd_accelerometerX = isd_accelerometerX insertData,
                  sd_accelerometerY = isd_accelerometerY insertData,
                  sd_accelerometerZ = isd_accelerometerZ insertData,
                  sd_timestamp = now\<rparr>
      in (data, st\<lparr>currentSensorDataId := i + 1,
                    sensorData := map_set i data (sensorData st)\<rparr>))"

definition createTransmissionLog ::
  "MemStorage \<Rightarrow> InsertTransmissionLog \<Rightarrow> int \<Rightarrow> TransmissionLog \<times> MemStorage" where
  "createTransmissionLog st insertLog now =
     (let i = currentTransmissionLogId st;
          log = \<lparr>tl_id = i,
                 tl_esp32IpAddress = itl_esp32IpAddress insertLog,
                 tl_sensorDataId = itl_sensorDataId insertLog,
                 tl_success = itl_success insertLog,
                 tl_errorMessage = itl_errorMessage insertLog,
                 tl_timestamp = now\<rparr>
      in (log, st\<lparr>currentTransmissionLogId := i + 1,
                   transmissionLogs := map_set i log (transmissionLogs st)\<rparr>))"

text \<open>
  A sequence of create operations on one store, as the three POST routes and any other
  caller issue them, and the run of such a sequence from a given store.
\<close>

datatype storage_op =
    CreateUser InsertUser
  | CreateSensorData InsertSensorData int
  | CreateTransmissionLog InsertTransmissionLog int

fun apply_storage_op :: "MemStorage \<Rightarrow> storage_op \<Rightarrow> MemStorage" where
  "apply_storage_op st (CreateUser u) = snd (createUser st u)"
| "apply_storage_op st (CreateSensorData d now) = snd (createSensorData st d now)"
| "apply_storage_op st (CreateTransmissionLog l now) = snd (createTransmissionLog st l now)"

definition run_storage_ops :: "MemStorage \<Rightarrow> storage_op list \<Rightarrow> MemStorage" where
  "run_storage_ops st ops = foldl apply_storage_op st ops"

subsection \<open>Reading samples back\<close>

text \<open>
  \<^verbatim>\<open>Array.prototype.slice(0, end)\<close> for an integer \<open>end\<close>: a negative \<open>end\<close> counts
  from the end of the array, and the bound is clamped to the array.
\<close>

definition js_slice0 :: "'a list \<Rightarrow> int \<Rightarrow> 'a list" where
  "js_slice0 xs end_ix =
     (let len = int (length xs);
          final = (if end_ix < 0 then max (len + end_ix) 0 else min end_ix len)
      in take (nat final) xs)"

text \<open>
  \<^verbatim>\<open>sort((a, b) => b.timestamp.getTime() - a.timestamp.getTime())\<close> orders by
  descending timestamp and is stable; \<^const>\<open>sort_key\<close> is a stable ascending sort, so
  the key is the negated timestamp.
\<close>

definition getRecentSensorData :: "MemStorage \<Rightarrow> int \<Rightarrow> SensorData list" where
  "getRecentSensorData st limit =
     (let allData = map_values (sensorData st)
      in js_slice0 (sort_key (\<lambda>d. - sd_timestamp d) allData) limit)"

subsection \<open>JavaScript numbers\<close>

text \<open>
  A JavaScript number is an IEEE 754 double, and \<^verbatim>\<open>/\<close> and \<^verbatim>\<open>*\<close> return the double
  nearest to the exact result, a tie going to the even significand.  A positive double
  is \<open>q * 2\<^sup>e\<close> with \<open>q < 2\<^sup>5\<^sup>3\<close>, where \<open>e\<close> is the exponent of the binade of the value
  less 52, and not below \<open>-1074\<close> (the subnormal range).  \<open>ilog2 x\<close> is the integer part
  of the binary logarithm of a positive \<open>x\<close>.  Overflow to \<^verbatim>\<open>Infinity\<close> (results of
  \<open>2\<^sup>1\<^sup>0\<^sup>2\<^sup>4\<close> and more) is outside the model, and so is division by zero: the source
  divides only by a count that it has tested or made positive, and its results are at
  most 100.  A count is converted exactly (counts stay far below \<open>2\<^sup>5\<^sup>3\<close>).
\<close>

definition ilog2 :: "real \<Rightarrow> int" where
  "ilog2 x = (if 1 \<le> x then bitlen \<lfloor>x\<rfloor> - 1 else - bitlen (\<lceil>1 / x\<rceil> - 1))"

definition pow2 :: "int \<Rightarrow> real" where
  "pow2 e = (if 0 \<le> e then 2 ^ nat e else 1 / 2 ^ nat (- e))"

definition round_half_even :: "real \<Rightarrow> int" where
  "round_half_even m =
     (let f = \<lfloor>m\<rfloor>; r = m - of_int f
      in if r < 1 / 2 then f
         else if 1 / 2 < r then f + 1
         else if even f then f else f + 1)"

definition to_double :: "real \<Rightarrow> real" where
  "to_double x =
     (if x = 0 then 0
      else (let a = \<bar>x\<bar>;
                e = max (ilog2 a - 52) (- 1074);
                q = round_half_even (a / pow2 e)
            in sgn x * of_int q * pow2 e))"

definition js_div :: "real \<Rightarrow> real \<Rightarrow> real" where
  "js_div x y = to_double (x / y)"

definition js_mul :: "real \<Rightarrow> real \<Rightarrow> real" where
  "js_mul x y = to_double (x * y)"

subsection \<open>Statistics over the stored logs\<close>

record TransmissionStats =
  totalTransmissions :: nat
  successfulTransmissions :: nat
  successRate :: real

record StoredTransmissionStats = TransmissionStats +
  stats_lastTransmission :: "int option"

definition getTransmissionStats :: "MemStorage \<Rightarrow> StoredTransmissionStats" where
  "getTransmissionStats st =
     (let logs = map_values (transmissionLogs st);
          total = length logs;
          successful = length (filter tl_success logs);
          rate = (if total > 0 then js_mul (js_div (real successful) (real total)) 100
                  else 0);
          lastT = (case sort_key (\<lambda>l. - tl_timestamp l) logs of
                     [] \<Rightarrow> None
                   | l # _ \<Rightarrow> Some (tl_timestamp l))
      in \<lparr>totalTransmissions = total, successfulTransmissions = successful,
          successRate = rate, stats_lastTransmission = lastT\<rparr>)"

section \<open>The sample-retrieval route (server/routes.ts, GET /api/sensor-data)\<close>

text \<open>
  A JavaScript string is a sequence of UTF-16 code units, and \<^verbatim>\<open>parseInt\<close> looks at
  them one by one; the text it reads is a list of code units here.  \<open>units\<close> gives the
  code units of a text written in ASCII.
\<close>

type_synonym js_string = "nat list"

definition units :: "string \<Rightarrow> js_string" where
  "units s = map of_char s"

text \<open>
  \<^verbatim>\<open>parseInt(s)\<close> with no radix, after ECMAScript: leading white space is skipped, one
  sign is read, a \<^verbatim>\<open>0x\<close>/\<^verbatim>\<open>0X\<close> prefix selects radix 16, and the longest run of digits
  of the radix is the value; with no digit the result is \<^verbatim>\<open>NaN\<close>, here \<^const>\<open>None\<close>.
  White space is what ECMAScript calls \<^verbatim>\<open>WhiteSpace\<close> and \<^verbatim>\<open>LineTerminator\<close>: TAB, LF,
  VT, FF, CR, SP, U+00A0, U+1680, U+2000 to U+200A, U+2028, U+2029, U+202F, U+205F,
  U+3000 and U+FEFF.  The value is the exact integer (the route only tests it against
  zero and uses it as a slice bound, where a bound beyond the array's length behaves as
  the length).
\<close>

definition is_js_space :: "nat \<Rightarrow> bool" where
  "is_js_space u \<longleftrightarrow>
     u = 9 \<or> u = 10 \<or> u = 11 \<or> u = 12 \<or> u = 13 \<or> u = 32 \<or> u = 160 \<or> u = 5760 \<or>
     (8192 \<le> u \<and> u \<le> 8202) \<or> u = 8232 \<or> u = 8233 \<or> u = 8239 \<or> u = 8287 \<or>
     u = 12288 \<or> u = 65279"

definition digit_value :: "nat \<Rightarrow> nat \<Rightarrow> nat option" where
  "digit_value radix u =
     (let v = (if 48 \<le> u \<and> u \<le> 57 then Some (u - 48)
               else if 97 \<le> u \<and> u \<le> 122 then Some (u - 87)
               else if 65 \<le> u \<and> u \<le> 90 then Some (u - 55)
               else None)
      in case v of None \<Rightarrow> None | Some d \<Rightarrow> if d < radix then Some d else None)"

definition digits_value :: "nat \<Rightarrow> js_string \<Rightarrow> nat" where
  "digits_value radix z =
     foldl (\<lambda>acc u. case digit_value radix u of None \<Rightarrow> acc | Some d \<Rightarrow> acc * radix + d) 0 z"

definition parse_digits :: "nat \<Rightarrow> js_string \<Rightarrow> nat option" where
  "parse_digits radix s =
     (let z = takeWhile (\<lambda>u. digit_value radix u \<noteq> None) s
      in if z = [] then None else Some (digits_value radix z))"

text \<open>Code unit 48 is \<^verbatim>\<open>0\<close>, 120 is \<^verbatim>\<open>x\<close>, 88 is \<^verbatim>\<open>X\<close>, 45 is \<^verbatim>\<open>-\<close> and 43 is \<^verbatim>\<open>+\<close>.\<close>

definition parse_unsigned :: "js_string \<Rightarrow> nat option" where
  "parse_unsigned s =
     (case s of
        u1 # u2 # rest \<Rightarrow>
          if u1 = 48 \<and> (u2 = 120 \<or> u2 = 88)
          then parse_digits 16 rest else parse_digits 10 s
      | _ \<Rightarrow> parse_digits 10 s)"

definition parseInt :: "js_string \<Rightarrow> int option" where
  "parseInt inputString =
     (let s = dropWhile is_js_space inputString
      in case s of
           [] \<Rightarrow> None
         | u # rest \<Rightarrow>
             if u = 45 then map_option (\<lambda>n. - int n) (parse_unsigned rest)
             else if u = 43 then map_option int (parse_unsigned rest)
             else map_option int (parse_unsigned s))"

text \<open>
  \<^verbatim>\<open>const limit = parseInt(req.query.limit as string) || 10\<close>.  The parameter enters as
  the text \<^verbatim>\<open>parseInt\<close> converts it to; an absent parameter is \<^verbatim>\<open>undefined\<close>, which
  \<^verbatim>\<open>parseInt\<close> reads as the text \<^verbatim>\<open>undefined\<close>: no digit, \<^verbatim>\<open>NaN\<close>.  \<^verbatim>\<open>NaN\<close> and zero are
  falsy, so \<^verbatim>\<open>||\<close> replaces both by 10.
\<close>

definition query_limit :: "js_string option \<Rightarrow> int" where
  "query_limit q =
     (case (case q of None \<Rightarrow> parseInt (units ''undefined'') | Some s \<Rightarrow> parseInt s) of
        None \<Rightarrow> 10
      | Some n \<Rightarrow> if n = 0 then 10 else n)"

text \<open>
  The handler answers with the list the store returns.  Its \<^verbatim>\<open>catch\<close> branch (status
  500) needs \<^verbatim>\<open>getRecentSensorData\<close> to throw, which it never does.
\<close>

definition get_sensor_data :: "MemStorage \<Rightarrow> js_string option \<Rightarrow> SensorData list" where
  "get_sensor_data st q = getRecentSensorData st (query_limit q)"

section \<open>HTTP and JavaScript values shared by client and relay\<close>

text \<open>
  What a \<^verbatim>\<open>catch\<close> clause receives: an \<^verbatim>\<open>Error\<close> with its message, or any other
  value.  A \<^verbatim>\<open>fetch\<close> either resolves to a response, of which the code reads only the
  status, or rejects (network fault, or the 5 second \<^verbatim>\<open>AbortSignal.timeout\<close>).
\<close>

datatype thrown = Error string | NonError

datatype fetch_outcome = Response nat | Rejects thrown

definition response_ok :: "nat \<Rightarrow> bool" where
  "response_ok status \<longleftrightarrow> 200 \<le> status \<and> status \<le> 299"

text \<open>The decimal text a template literal gives a status code.\<close>

fun string_of_nat :: "nat \<Rightarrow> string" where
  "string_of_nat n =
     (if n < 10 then [char_of (48 + n)]
      else string_of_nat (n div 10) @ [char_of (48 + n mod 10)])"

declare string_of_nat.simps [simp del]

text \<open>\<^verbatim>\<open>String.prototype.includes\<close>: the needle occurs somewhere in the text.\<close>

fun str_includes :: "string \<Rightarrow> string \<Rightarrow> bool" where
  "str_includes [] needle = (needle = [])"
| "str_includes (c # cs) needle = (prefix needle (c # cs) \<or> str_includes cs needle)"

record GpsReading =
  latitude :: real
  longitude :: real
  accuracy :: "real option"

record AccelReading =
  acc_x :: real
  acc_y :: real
  acc_z :: real

record ESP32Data =
  data_gps :: GpsReading
  data_accelerometer :: AccelReading
  data_timestamp :: int

section \<open>The relay (server/routes.ts, POST /api/test-esp32)\<close>

text \<open>
  The JSON bodies the handler writes have at most the fields \<^verbatim>\<open>success\<close>,
  \<^verbatim>\<open>error\<close> and \<^verbatim>\<open>message\<close>; a field the body lacks is \<^const>\<open>None\<close>.
\<close>

record json_body =
  b_success :: "bool option"
  b_error :: "string option"
  b_message :: "string option"

record http_response =
  status :: nat
  body :: json_body

text \<open>
  The handler takes \<^verbatim>\<open>ipAddress\<close> and \<^verbatim>\<open>data\<close> from the request body (a missing
  field is \<^const>\<open>None\<close>; the empty string is falsy too), and the outcome of its own
  \<^verbatim>\<open>fetch\<close> to the device.
\<close>

definition test_esp32 ::
  "string option \<Rightarrow> ESP32Data option \<Rightarrow> fetch_outcome \<Rightarrow> http_response" where
  "test_esp32 ipAddress payload device =
     (if ipAddress = None \<or> ipAddress = Some [] \<or> payload = None
      then \<lparr>status = 400,
            body = \<lparr>b_success = None,
                    b_error = Some ''IP address and data are required'',
                    b_message = None\<rparr>\<rparr>
      else case device of
             Response st \<Rightarrow>
               if response_ok st
               then \<lparr>status = 200,
                     body = \<lparr>b_success = Some True, b_error = None,
                             b_message = Some ''ESP32 communication successful''\<rparr>\<rparr>
               else \<lparr>status = st,
                     body = \<lparr>b_success = Some False,
                             b_error = Some (''ESP32 responded with status '' @ string_of_nat st),
                             b_message = None\<rparr>\<rparr>
           | Rejects e \<Rightarrow>
               \<lparr>status = 500,
                body = \<lparr>b_success = Some False,
                        b_error = Some (case e of Error m \<Rightarrow> m
                                        | NonError \<Rightarrow> ''Failed to connect to ESP32''),
                        b_message = None\<rparr>\<rparr>)"

section \<open>The transmission client (client/src/lib/esp32-client.ts, class ESP32Client)\<close>

text \<open>
  \<^verbatim>\<open>sendData\<close> returns \<^verbatim>\<open>{ success, error }\<close>.  On the relay path both fields are
  copied from the parsed relay body, so either can be \<^verbatim>\<open>undefined\<close>: they are options.
\<close>

record send_result =
  success :: "bool option"
  error :: "string option"

text \<open>
  The relay call is \<^verbatim>\<open>apiRequest('POST', '/api/test-esp32', ...)\<close> followed by
  \<^verbatim>\<open>response.json()\<close>.  \<^verbatim>\<open>apiRequest\<close> (lib/queryClient) is not among the sources; what
  the client code can observe of it is that the two awaits either deliver a parsed body
  or throw, and that is how the call enters the model.
\<close>

datatype relay_outcome = Returned json_body | Threw thrown


text \<open>
  The \<^verbatim>\<open>try\<close> block of \<^verbatim>\<open>sendData\<close>: \<^const>\<open>None\<close> when it returns
  \<^verbatim>\<open>{ success: true }\<close>, otherwise the value that reaches the \<^verbatim>\<open>catch\<close> clause.
\<close>

definition direct_attempt :: "fetch_outcome \<Rightarrow> thrown option" where
  "direct_attempt direct =
     (case direct of
        Response st \<Rightarrow>
          if response_ok st then None
          else Some (Error (''ESP32 responded with status '' @ string_of_nat st))
      | Rejects e \<Rightarrow> Some e)"

definition sendData_outcome :: "fetch_outcome \<Rightarrow> relay_outcome \<Rightarrow> send_result" where
  "sendData_outcome direct relay =
     (case direct_attempt direct of
        None \<Rightarrow> \<lparr>success = Some True, error = None\<rparr>
      | Some err \<Rightarrow>
          (case relay of
             Returned result \<Rightarrow> \<lparr>success = b_success result, error = b_error result\<rparr>
           | Threw proxyError \<Rightarrow>
               (let errorMessage = (case err of Error m \<Rightarrow> m
                                    | NonError \<Rightarrow> ''Failed to connect to ESP32'')
                in \<lparr>success = Some False,
                    error = Some (if str_includes errorMessage ''CORS''
                                  then ''CORS error - ESP32 may not allow browser requests''
                                  else errorMessage)\<rparr>)))"

text \<open>
  The network as the client meets it: what the direct \<^verbatim>\<open>fetch\<close> of a URL with a
  payload does, and what the relay call for an address and a payload does.
\<close>

record network =
  direct_fetch :: "string \<Rightarrow> ESP32Data \<Rightarrow> fetch_outcome"
  relay_call :: "string \<Rightarrow> ESP32Data \<Rightarrow> relay_outcome"

definition sendData :: "network \<Rightarrow> string \<Rightarrow> ESP32Data \<Rightarrow> send_result" where
  "sendData net ipAddress payload =
     (let esp32Url = ''http://'' @ ipAddress @ ''/sensor-data''
      in sendData_outcome (direct_fetch net esp32Url payload) (relay_call net ipAddress payload))"

text \<open>\<^verbatim>\<open>testConnection\<close>; \<open>now\<close> is the reading of \<^verbatim>\<open>Date.now()\<close>.\<close>

definition testConnection :: "network \<Rightarrow> string \<Rightarrow> int \<Rightarrow> send_result" where
  "testConnection net ipAddress now =
     (let testData = \<lparr>data_gps = \<lparr>latitude = 0, longitude = 0, accuracy = None\<rparr>,
                      data_accelerometer = \<lparr>acc_x = 0, acc_y = 0, acc_z = 0\<rparr>,
                      data_timestamp = now\<rparr>
      in sendData net ipAddress testData)"

section \<open>The sensor source (client/src/hooks/use-sensors.ts)\<close>

datatype permission = Granted | Denied | Prompt | Unknown

record SensorPermissions =
  perm_gps :: permission
  perm_motion :: permission

record SensorErrors =
  err_gps :: "string option"
  err_motion :: "string option"

record GPSData =
  gps_latitude :: real
  gps_longitude :: real
  gps_accuracy :: "real option"
  gps_timestamp :: int

record AccelerometerData =
  accel_x :: real
  accel_y :: real
  accel_z :: real
  accel_timestamp :: int

definition getGeolocationErrorMessage :: "nat \<Rightarrow> string" where
  "getGeolocationErrorMessage code =
     (if code = 1 then ''Location access denied''
      else if code = 2 then ''Location unavailable''
      else if code = 3 then ''Location request timeout''
      else ''Unknown location error'')"

text \<open>
  What the platform does when a permission is requested: for location, the API is
  missing, a position arrives, \<^verbatim>\<open>getCurrentPosition\<close> fails with a
  \<^verbatim>\<open>GeolocationPositionError\<close> code, or something else is thrown; for motion, the event
  type is missing, there is no \<^verbatim>\<open>requestPermission\<close> function, the function answers
  with a string, or it throws.
\<close>

datatype gps_request =
    GeolocationMissing | PositionArrived | PositionError nat | GpsRequestThrew

datatype motion_request =
    DeviceMotionMissing | NoRequestFunction | PermissionAnswer string | MotionRequestThrew

section \<open>The transmission loop (client/src/pages/sensor-transmitter.tsx)\<close>

datatype connection_status = Connected | Disconnected | Connecting

datatype message_type = MsgSuccess | MsgError

text \<open>A request the component issues to the persistence routes, with its JSON body.\<close>

datatype api_request =
    PostSensorData InsertSensorData
  | PostTransmissionLog string "bool option" "string option"

text \<open>
  \<^verbatim>\<open>sendDataToESP32\<close> is an \<^verbatim>\<open>async\<close> function with three awaits.  A call that passed
  the guard is an attempt; between two awaits it runs without interruption, and at an
  await other handlers of the page may run.  The stage says which await an attempt is
  suspended at; what the closure captured (the client's address, the address state, the
  payload built from the two samples) stays with the attempt.
\<close>

datatype stage = AwaitSend | AwaitStore send_result | AwaitLog send_result | Finished

record attempt =
  att_client :: string
  att_esp32IpAddress :: string
  att_data :: ESP32Data
  att_stage :: stage

text \<open>
  The state of the page: the \<^verbatim>\<open>useState\<close> cells of the component and of the sensor
  hook, the requests issued so far to the persistence routes, and the attempts started
  so far.  \<^verbatim>\<open>nextTransmission\<close> and the 5 second expiry of the status message only feed
  the display and are left out.
\<close>

record transmitter_state =
  esp32IpAddress :: string
  isTransmitting :: bool
  esp32Client :: "string option"
  connectionStatus :: connection_status
  lastTransmission :: "int option"
  transmissionStats :: TransmissionStats
  statusMessage :: "(message_type \<times> string) option"
  gpsData :: "GPSData option"
  accelerometerData :: "AccelerometerData option"
  permissions :: SensorPermissions
  errors :: SensorErrors
  api_requests :: "api_request list"
  in_flight :: "attempt list"

definition initial_state :: transmitter_state where
  "initial_state =
     \<lparr>esp32IpAddress = ''192.168.1.50'', isTransmitting = False, esp32Client = None,
      connectionStatus = Disconnected, lastTransmission = None,
      transmissionStats =
        \<lparr>totalTransmissions = 0, successfulTransmissions = 0, successRate = 0\<rparr>,
      statusMessage = None, gpsData = None, accelerometerData = None,
      permissions = \<lparr>perm_gps = Unknown, perm_motion = Unknown\<rparr>,
      errors = \<lparr>err_gps = None, err_motion = None\<rparr>,
      api_requests = [], in_flight = []\<rparr>"

subsection \<open>Permission requests\<close>

definition requestGPSPermission :: "gps_request \<Rightarrow> transmitter_state \<Rightarrow> transmitter_state" where
  "requestGPSPermission r st =
     (case r of
        GeolocationMissing \<Rightarrow>
          st\<lparr>errors := (errors st)\<lparr>err_gps := Some ''Geolocation not supported''\<rparr>,
             permissions := (permissions st)\<lparr>perm_gps := Denied\<rparr>\<rparr>
      | PositionArrived \<Rightarrow>
          st\<lparr>permissions := (permissions st)\<lparr>perm_gps := Granted\<rparr>,
             errors := (errors st)\<lparr>err_gps := None\<rparr>\<rparr>
      | PositionError code \<Rightarrow>
          st\<lparr>errors := (errors st)\<lparr>err_gps := Some (getGeolocationErrorMessage code)\<rparr>,
             permissions := (permissions st)\<lparr>perm_gps := Denied\<rparr>\<rparr>
      | GpsRequestThrew \<Rightarrow>
          st\<lparr>errors := (errors st)\<lparr>err_gps := Some ''Failed to get location''\<rparr>,
             permissions := (permissions st)\<lparr>perm_gps := Denied\<rparr>\<rparr>)"

definition requestMotionPermission ::
  "motion_request \<Rightarrow> transmitter_state \<Rightarrow> transmitter_state" where
  "requestMotionPermission r st =
     (case r of
        DeviceMotionMissing \<Rightarrow>
          st\<lparr>errors := (errors st)\<lparr>err_motion := Some ''Device motion not supported''\<rparr>,
             permissions := (permissions st)\<lparr>perm_motion := Denied\<rparr>\<rparr>
      | NoRequestFunction \<Rightarrow>
          st\<lparr>permissions := (permissions st)\<lparr>perm_motion := Granted\<rparr>,
             errors := (errors st)\<lparr>err_motion := None\<rparr>\<rparr>
      | PermissionAnswer p \<Rightarrow>
          if p = ''granted''
          then st\<lparr>permissions := (permissions st)\<lparr>perm_motion := Granted\<rparr>,
                  errors := (errors st)\<lparr>err_motion := None\<rparr>\<rparr>
          else st\<lparr>permissions := (permissions st)\<lparr>perm_motion := Denied\<rparr>,
                  errors := (errors st)\<lparr>err_motion := Some ''Motion permission denied''\<rparr>\<rparr>
      | MotionRequestThrew \<Rightarrow>
          st\<lparr>errors :=
               (errors st)\<lparr>err_motion := Some ''Failed to request motion permission''\<rparr>,
             permissions := (permissions st)\<lparr>perm_motion := Denied\<rparr>\<rparr>)"

subsection \<open>Starting and stopping\<close>

text \<open>
  \<^verbatim>\<open>toggleTransmission\<close>.  The handler reads \<^verbatim>\<open>isTransmitting\<close> and \<^verbatim>\<open>permissions\<close> from
  the render it was created in: the requests it awaits update the permission state, but
  the test that follows still reads the values \<open>seen\<close> at the click.
\<close>

definition toggleTransmission ::
  "gps_request \<Rightarrow> motion_request \<Rightarrow> transmitter_state \<Rightarrow> transmitter_state" where
  "toggleTransmission gr mr st =
     (if \<not> isTransmitting st then
        (let seen = permissions st;
             st1 = (if perm_gps seen \<noteq> Granted then requestGPSPermission gr st else st);
             st2 = (if perm_motion seen \<noteq> Granted then requestMotionPermission mr st1 else st1)
         in if perm_gps seen = Granted \<and> perm_motion seen = Granted
            then st2\<lparr>isTransmitting := True,
                     statusMessage := Some (MsgSuccess, ''Transmission started'')\<rparr>
            else st2\<lparr>statusMessage := Some (MsgError, ''Sensor permissions required'')\<rparr>)
      else st\<lparr>isTransmitting := False, connectionStatus := Disconnected,
              statusMessage := Some (MsgSuccess, ''Transmission stopped'')\<rparr>)"

subsection \<open>One send attempt\<close>

text \<open>
  Up to the first await: the guard, the payload, \<^verbatim>\<open>setConnectionStatus('connecting')\<close>,
  and the call of \<^verbatim>\<open>esp32Client.sendData\<close>.  \<open>now\<close> is \<^verbatim>\<open>Date.now()\<close>.
\<close>

definition sendDataToESP32_begin :: "int \<Rightarrow> transmitter_state \<Rightarrow> transmitter_state" where
  "sendDataToESP32_begin now st =
     (case esp32Client st of
        None \<Rightarrow> st
      | Some client \<Rightarrow>
          (case gpsData st of
             None \<Rightarrow> st
           | Some g \<Rightarrow>
               (case accelerometerData st of
                  None \<Rightarrow> st
                | Some a \<Rightarrow>
                    (let payload =
                           \<lparr>data_gps = \<lparr>latitude = gps_latitude g,
                                        longitude = gps_longitude g,
                                        accuracy = gps_accuracy g\<rparr>,
                            data_accelerometer =
                              \<lparr>acc_x = accel_x a, acc_y = accel_y a, acc_z = accel_z a\<rparr>,
                            data_timestamp = now\<rparr>
                     in st\<lparr>connectionStatus := Connecting,
                           in_flight := in_flight st @
                             [\<lparr>att_client = client,
                               att_esp32IpAddress = esp32IpAddress st,
                               att_data = payload, att_stage = AwaitSend\<rparr>]\<rparr>))))"

text \<open>
  \<^verbatim>\<open>setTransmissionStats(prev => ...)\<close>: the update is applied to the statistics as they
  are when it runs.  \<^verbatim>\<open>result.success ? 1 : 0\<close> tests truthiness.
\<close>

definition update_stats :: "send_result \<Rightarrow> TransmissionStats \<Rightarrow> TransmissionStats" where
  "update_stats result prev =
     (let inc = (if success result = Some True then 1 else 0 :: nat)
      in \<lparr>totalTransmissions = totalTransmissions prev + 1,
          successfulTransmissions = successfulTransmissions prev + inc,
          successRate =
            js_mul (js_div (real (successfulTransmissions prev + inc))
                           (real (totalTransmissions prev + 1))) 100\<rparr>)"

definition set_stage :: "nat \<Rightarrow> stage \<Rightarrow> attempt list \<Rightarrow> attempt list" where
  "set_stage i s atts = atts[i := (atts ! i)\<lparr>att_stage := s\<rparr>]"

text \<open>
  From the first await to the second: \<^verbatim>\<open>sendData\<close> has settled (it catches every
  failure of its own, so it always resolves), the connection status and the status
  message are set, and the sample is posted to \<^verbatim>\<open>/api/sensor-data\<close>.  \<open>now\<close> is
  \<^verbatim>\<open>new Date()\<close>.  The outer \<^verbatim>\<open>catch\<close> of \<^verbatim>\<open>sendDataToESP32\<close> needs a throw outside the
  inner \<^verbatim>\<open>try\<close>, and nothing there throws.
\<close>

definition send_settled ::
  "nat \<Rightarrow> fetch_outcome \<Rightarrow> relay_outcome \<Rightarrow> int \<Rightarrow> transmitter_state \<Rightarrow> transmitter_state" where
  "send_settled i direct relay now st =
     (if i < length (in_flight st) \<and> att_stage (in_flight st ! i) = AwaitSend then
        (let att = in_flight st ! i;
             result = sendData_outcome direct relay;
             st1 = (if success result = Some True
                    then st\<lparr>connectionStatus := Connected,
                            lastTransmission := Some now,
                            statusMessage := Some (MsgSuccess, ''Data transmitted successfully'')\<rparr>
                    else st\<lparr>connectionStatus := Disconnected,
                            statusMessage :=
                              Some (MsgError,
                                    (case error result of
                                       None \<Rightarrow> ''Failed to transmit data''
                                     | Some m \<Rightarrow>
                                         if m = [] then ''Failed to transmit data'' else m))\<rparr>);
             d = att_data att;
             sample = \<lparr>isd_latitude = latitude (data_gps d),
                       isd_longitude = longitude (data_gps d),
                       isd_accuracy = accuracy (data_gps d),
                       isd_accelerometerX = acc_x (data_accelerometer d),
                       isd_accelerometerY = acc_y (data_accelerometer d),
                       isd_accelerometerZ = acc_z (data_accelerometer d)\<rparr>
         in st1\<lparr>api_requests := api_requests st1 @ [PostSensorData sample],
                in_flight := set_stage i (AwaitStore result) (in_flight st1)\<rparr>)
      else st)"

text \<open>
  From the second await on.  If the first post succeeded, the outcome is posted to
  \<^verbatim>\<open>/api/transmission-logs\<close> and the attempt waits again; if it threw, the inner
  \<^verbatim>\<open>catch\<close> logs to the console and the statistics are updated at once.
\<close>

definition store_settled :: "nat \<Rightarrow> bool \<Rightarrow> transmitter_state \<Rightarrow> transmitter_state" where
  "store_settled i ok st =
     (if i < length (in_flight st) then
        (case att_stage (in_flight st ! i) of
           AwaitStore result \<Rightarrow>
             if ok
             then st\<lparr>api_requests := api_requests st @
                       [PostTransmissionLog (att_esp32IpAddress (in_flight st ! i))
                          (success result) (error result)],
                     in_flight := set_stage i (AwaitLog result) (in_flight st)\<rparr>
             else st\<lparr>transmissionStats := update_stats result (transmissionStats st),
                     in_flight := set_stage i Finished (in_flight st)\<rparr>
         | _ \<Rightarrow> st)
      else st)"

text \<open>After the third await, whether the log post succeeded or threw.\<close>

definition log_settled :: "nat \<Rightarrow> bool \<Rightarrow> transmitter_state \<Rightarrow> transmitter_state" where
  "log_settled i ok st =
     (if i < length (in_flight st) then
        (case att_stage (in_flight st ! i) of
           AwaitLog result \<Rightarrow>
             st\<lparr>transmissionStats := update_stats result (transmissionStats st),
                in_flight := set_stage i Finished (in_flight st)\<rparr>
         | _ \<Rightarrow> st)
      else st)"

subsection \<open>The page as a state machine\<close>

text \<open>
  The handlers and callbacks that can run, one at a time.  A tick is a call of
  \<^verbatim>\<open>sendDataToESP32\<close> by the scheduling effect, at once or from its interval; the effect
  installs both only while \<^verbatim>\<open>isTransmitting && gpsData && accelerometerData\<close>, and its
  cleanup clears the interval when that changes.  The sensor subscriptions exist only
  while transmitting with the permission granted.
\<close>

datatype event =
    Toggle gps_request motion_request
  | IpInput string
  | ClientEffect
  | MountGpsRequest gps_request
  | MountMotionRequest motion_request
  | GpsUpdate GPSData
  | MotionUpdate AccelerometerData
  | Tick int
  | SendSettled nat fetch_outcome relay_outcome int
  | StoreSettled nat bool
  | LogSettled nat bool

fun step :: "transmitter_state \<Rightarrow> event \<Rightarrow> transmitter_state" where
  "step st (Toggle gr mr) = toggleTransmission gr mr st"
| "step st (IpInput a) = st\<lparr>esp32IpAddress := a\<rparr>"
| "step st ClientEffect = st\<lparr>esp32Client := Some (esp32IpAddress st)\<rparr>"
| "step st (MountGpsRequest r) = requestGPSPermission r st"
| "step st (MountMotionRequest r) = requestMotionPermission r st"
| "step st (GpsUpdate g) =
     (if isTransmitting st \<and> perm_gps (permissions st) = Granted
      then st\<lparr>gpsData := Some g\<rparr> else st)"
| "step st (MotionUpdate a) =
     (if isTransmitting st \<and> perm_motion (permissions st) = Granted
      then st\<lparr>accelerometerData := Some a\<rparr> else st)"
| "step st (Tick now) =
     (if isTransmitting st \<and> gpsData st \<noteq> None \<and> accelerometerData st \<noteq> None
      then sendDataToESP32_begin now st else st)"
| "step st (SendSettled i direct relay now) = send_settled i direct relay now st"
| "step st (StoreSettled i ok) = store_settled i ok st"
| "step st (LogSettled i ok) = log_settled i ok st"

definition run :: "transmitter_state \<Rightarrow> event list \<Rightarrow> transmitter_state" where
  "run st evs = foldl step st evs"

section \<open>Properties to be established\<close>

text \<open>
  The invariant of the statistics, for the page's record and for the record the store
  computes alike: no more successes than attempts, and the rate is
  \<^verbatim>\<open>successful / total * 100\<close> as JavaScript evaluates it, quotient and product each
  rounded to a double, or zero before the first attempt.
\<close>

definition stats_ok :: "'a TransmissionStats_scheme \<Rightarrow> bool" where
  "stats_ok s \<longleftrightarrow>
     successfulTransmissions s \<le> totalTransmissions s \<and>
     successRate s =
       (if totalTransmissions s > 0
        then js_mul (js_div (real (successfulTransmissions s))
                            (real (totalTransmissions s))) 100
        else 0)"

text \<open>
  The invariant of the store: in each map the keys, in insertion order, are
  \<open>1, 2, \<dots>\<close> up to the counter (excluded), and every row carries its key as its id.
\<close>

definition store_inv :: "MemStorage \<Rightarrow> bool" where
  "store_inv st \<longleftrightarrow>
     map fst (users st) = [1..<currentUserId st] \<and>
     map fst (sensorData st) = [1..<currentSensorDataId st] \<and>
     map fst (transmissionLogs st) = [1..<currentTransmissionLogId st] \<and>
     map (\<lambda>p. u_id (snd p)) (users st) = [1..<currentUserId st] \<and>
     map (\<lambda>p. sd_id (snd p)) (sensorData st) = [1..<currentSensorDataId st] \<and>
     map (\<lambda>p. tl_id (snd p)) (transmissionLogs st) = [1..<currentTransmissionLogId st] \<and>
     1 \<le> currentUserId st \<and> 1 \<le> currentSensorDataId st \<and> 1 \<le> currentTransmissionLogId st"

text \<open>
  What the interface promises of a retrieval with limit \<open>n\<close>, in its own words: the
  answer \<open>r\<close> holds the \<open>n\<close> most recent of the stored samples \<open>stored\<close> (all of them when
  there are fewer), newest first.  The samples left out are \<open>rest\<close>; none of them is
  newer than a sample of the answer.
\<close>

definition most_recent_first :: "nat \<Rightarrow> SensorData list \<Rightarrow> SensorData list \<Rightarrow> bool" where
  "most_recent_first n stored r \<longleftrightarrow>
     length r = min n (length stored) \<and>
     sorted_wrt (\<lambda>a b. sd_timestamp b \<le> sd_timestamp a) r \<and>
     (\<exists>rest. mset stored = mset r + mset rest \<and>
        (\<forall>a \<in> set r. \<forall>b \<in> set rest. sd_timestamp b \<le> sd_timestamp a))"

text \<open>
  The events after which a suspended attempt resumes, and the click on the start/stop
  button; every other event is the scheduler, a sensor or the address field.
\<close>

fun is_completion :: "event \<Rightarrow> bool" where
  "is_completion (SendSettled i direct relay now) = True"
| "is_completion (StoreSettled i ok) = True"
| "is_completion (LogSettled i ok) = True"
| "is_completion e = False"

fun is_toggle :: "event \<Rightarrow> bool" where
  "is_toggle (Toggle gr mr) = True"
| "is_toggle e = False"

section \<open>Example inputs\<close>

text \<open>
  A session of the page: the client is created, both permissions are granted at mount,
  transmission is started, both sensors report, and two ticks run to completion; the
  first is answered with status 200 by the device, the second with status 500 while
  the relay call fails and the sample post fails.
\<close>

definition example_session :: "event list" where
  "example_session =
     [ClientEffect, MountGpsRequest PositionArrived, MountMotionRequest NoRequestFunction,
      Toggle PositionArrived NoRequestFunction,
      GpsUpdate \<lparr>gps_latitude = 1, gps_longitude = 2, gps_accuracy = Some 3,
                 gps_timestamp = 5\<rparr>,
      MotionUpdate \<lparr>accel_x = 1, accel_y = 2, accel_z = 3, accel_timestamp = 6\<rparr>,
      Tick 10, SendSettled 0 (Response 200) (Threw NonError) 11,
      StoreSettled 0 True, LogSettled 0 False,
      Tick 20, SendSettled 1 (Response 500) (Threw NonError) 21, StoreSettled 1 False]"

text \<open>
  A session with three ticks run to completion, of which the first succeeds and the
  other two fail.
\<close>

definition example_one_in_three :: "event list" where
  "example_one_in_three =
     take 6 example_session @
     [Tick 10, SendSettled 0 (Response 200) (Threw NonError) 11,
      StoreSettled 0 True, LogSettled 0 True,
      Tick 20, SendSettled 1 (Response 500) (Threw NonError) 21, StoreSettled 1 False,
      Tick 30, SendSettled 2 (Rejects (Error ''Failed to fetch'')) (Threw NonError) 31,
      StoreSettled 2 True, LogSettled 2 True]"

text \<open>
  The same session up to its first tick, which leaves one attempt waiting for
  \<^verbatim>\<open>sendData\<close>; the same with the stop button pressed at that point; and the latter
  after the waiting attempt has run to its end, the device having answered 200.
\<close>

definition example_running :: transmitter_state where
  "example_running = run initial_state (take 7 example_session)"

definition example_stopped :: transmitter_state where
  "example_stopped = step example_running (Toggle PositionArrived NoRequestFunction)"

definition example_after_stop :: transmitter_state where
  "example_after_stop =
     run example_stopped
       [SendSettled 0 (Response 200) (Threw NonError) 11,
        StoreSettled 0 True, LogSettled 0 True]"

text \<open>The session while only the location sensor has reported.\<close>

definition example_no_motion :: transmitter_state where
  "example_no_motion = run initial_state (take 5 example_session)"

text \<open>Stores with three samples, inserted out of time order, and with one sample.\<close>

definition example_sample :: "real \<Rightarrow> InsertSensorData" where
  "example_sample v =
     \<lparr>isd_latitude = v, isd_longitude = 0, isd_accuracy = None,
      isd_accelerometerX = 0, isd_accelerometerY = 0, isd_accelerometerZ = 0\<rparr>"

definition example_store :: MemStorage where
  "example_store =
     run_storage_ops MemStorage_new
       [CreateSensorData (example_sample 1) 3000,
        CreateSensorData (example_sample 2) 1000,
        CreateSensorData (example_sample 3) 2000]"

definition one_sample_store :: MemStorage where
  "one_sample_store =
     run_storage_ops MemStorage_new [CreateSensorData (example_sample 1) 3000]"

text \<open>
  A network on which the browser's direct call is blocked and the relay, reaching the
  device, gets status 200 and has its answer delivered; and a payload.
\<close>

definition example_net :: network where
  "example_net =
     \<lparr>direct_fetch = (\<lambda>url d. Rejects (Error ''Failed to fetch'')),
      relay_call = (\<lambda>ip d. Returned (body (test_esp32 (Some ip) (Some d) (Response 200))))\<rparr>"

definition example_payload :: ESP32Data where
  "example_payload =
     \<lparr>data_gps = \<lparr>latitude = 1, longitude = 2, accuracy = Some 3\<rparr>,
      data_accelerometer = \<lparr>acc_x = 1, acc_y = 2, acc_z = 3\<rparr>,
      data_timestamp = 10\<rparr>"

section \<open>The store: ids\<close>

lemma map_set_fresh: "k \<notin> set (map fst m) \<Longrightarrow> map_set k v m = m @ [(k, v)]"
  by (induction m) auto

lemma store_inv_new: "store_inv MemStorage_new"
  by (simp add: store_inv_def MemStorage_new_def)

lemma createUser_appends:
  "store_inv st \<Longrightarrow>
   users (snd (createUser st u)) = users st @ [(currentUserId st, fst (createUser st u))]"
  by (simp add: store_inv_def createUser_def Let_def map_set_fresh)

lemma createSensorData_appends:
  "store_inv st \<Longrightarrow>
   sensorData (snd (createSensorData st d now)) =
     sensorData st @ [(currentSensorDataId st, fst (createSensorData st d now))]"
  by (simp add: store_inv_def createSensorData_def Let_def map_set_fresh)

lemma createTransmissionLog_appends:
  "store_inv st \<Longrightarrow>
   transmissionLogs (snd (createTransmissionLog st l now)) =
     transmissionLogs st @
       [(currentTransmissionLogId st, fst (createTransmissionLog st l now))]"
  by (simp add: store_inv_def createTransmissionLog_def Let_def map_set_fresh)

lemma store_inv_createUser: "store_inv st \<Longrightarrow> store_inv (snd (createUser st u))"
  by (simp add: store_inv_def createUser_def Let_def map_set_fresh)

lemma store_inv_createSensorData:
  "store_inv st \<Longrightarrow> store_inv (snd (createSensorData st d now))"
  by (simp add: store_inv_def createSensorData_def Let_def map_set_fresh)

lemma store_inv_createTransmissionLog:
  "store_inv st \<Longrightarrow> store_inv (snd (createTransmissionLog st l now))"
  by (simp add: store_inv_def createTransmissionLog_def Let_def map_set_fresh)

lemma store_inv_step: "store_inv st \<Longrightarrow> store_inv (apply_storage_op st x)"
  by (cases x)
     (simp_all add: store_inv_createUser store_inv_createSensorData
        store_inv_createTransmissionLog)

lemma store_inv_run: "store_inv st \<Longrightarrow> store_inv (run_storage_ops st ops)"
  unfolding run_storage_ops_def
  by (induction ops arbitrary: st) (simp_all add: store_inv_step)

lemma store_inv_reachable: "store_inv (run_storage_ops MemStorage_new ops)"
  by (rule store_inv_run [OF store_inv_new])

text \<open>
  Claim C10.  After any sequence of create operations on a fresh store, the keys of
  each map, in the order the rows were inserted, are \<open>1, 2, \<dots>\<close> up to the counter:
  the ids start at 1, are pairwise distinct and strictly increasing within each kind.
  Every row carries its key as id.  The next create of each kind appends its row under
  the counter's value and leaves all earlier entries as they are, so nothing is ever
  overwritten.  (Ids are natural numbers here; a JavaScript number stops growing by
  increments of one at \<open>2\<^sup>5\<^sup>3\<close>, far beyond what a \<^verbatim>\<open>Map\<close> can hold.)
\<close>

theorem create_ids_fresh_and_increasing:
  "let st = run_storage_ops MemStorage_new ops in
     map_keys (users st) = [1..<currentUserId st] \<and>
     map_keys (sensorData st) = [1..<currentSensorDataId st] \<and>
     map_keys (transmissionLogs st) = [1..<currentTransmissionLogId st] \<and>
     map u_id (map_values (users st)) = map_keys (users st) \<and>
     map sd_id (map_values (sensorData st)) = map_keys (sensorData st) \<and>
     map tl_id (map_values (transmissionLogs st)) = map_keys (transmissionLogs st) \<and>
     (\<forall>u. users (snd (createUser st u)) =
            users st @ [(currentUserId st, fst (createUser st u))]) \<and>
     (\<forall>d now. sensorData (snd (createSensorData st d now)) =
            sensorData st @ [(currentSensorDataId st, fst (createSensorData st d now))]) \<and>
     (\<forall>l now. transmissionLogs (snd (createTransmissionLog st l now)) =
            transmissionLogs st @
              [(currentTransmissionLogId st, fst (createTransmissionLog st l now))])"
proof -
  define st where "st = run_storage_ops MemStorage_new ops"
  have inv: "store_inv st"
    unfolding st_def by (rule store_inv_reachable)
  have keys: "map_keys (users st) = [1..<currentUserId st]"
    "map_keys (sensorData st) = [1..<currentSensorDataId st]"
    "map_keys (transmissionLogs st) = [1..<currentTransmissionLogId st]"
    using inv by (simp_all add: store_inv_def map_keys_def)
  have ids: "map u_id (map_values (users st)) = map_keys (users st)"
    "map sd_id (map_values (sensorData st)) = map_keys (sensorData st)"
    "map tl_id (map_values (transmissionLogs st)) = map_keys (transmissionLogs st)"
    using inv by (simp_all add: store_inv_def map_keys_def map_values_def comp_def)
  show ?thesis
    unfolding Let_def st_def [symmetric]
    using keys ids createUser_appends [OF inv] createSensorData_appends [OF inv]
      createTransmissionLog_appends [OF inv]
    by blast
qed

section \<open>Statistics\<close>

lemma update_stats_ok: "stats_ok s \<Longrightarrow> stats_ok (update_stats r s)"
  by (simp add: stats_ok_def update_stats_def Let_def)

lemma stats_send_settled:
  "transmissionStats (send_settled i d r now st) = transmissionStats st"
  by (simp add: send_settled_def Let_def)

lemma stats_ok_store_settled:
  "stats_ok (transmissionStats st) \<Longrightarrow> stats_ok (transmissionStats (store_settled i ok st))"
  by (simp add: store_settled_def update_stats_ok split: stage.splits)

lemma stats_ok_log_settled:
  "stats_ok (transmissionStats st) \<Longrightarrow> stats_ok (transmissionStats (log_settled i ok st))"
  by (simp add: log_settled_def update_stats_ok split: stage.splits)

lemma stats_begin:
  "transmissionStats (sendDataToESP32_begin now st) = transmissionStats st"
  by (simp add: sendDataToESP32_begin_def Let_def split: option.splits)

lemma stats_requestGPS: "transmissionStats (requestGPSPermission r st) = transmissionStats st"
  by (simp add: requestGPSPermission_def split: gps_request.splits)

lemma stats_requestMotion:
  "transmissionStats (requestMotionPermission r st) = transmissionStats st"
  by (simp add: requestMotionPermission_def split: motion_request.splits)

lemma stats_toggle: "transmissionStats (toggleTransmission gr mr st) = transmissionStats st"
  by (simp add: toggleTransmission_def Let_def stats_requestGPS stats_requestMotion)

lemma stats_ok_step:
  "stats_ok (transmissionStats st) \<Longrightarrow> stats_ok (transmissionStats (step st e))"
  by (cases e)
     (simp_all add: stats_toggle stats_requestGPS stats_requestMotion stats_begin
        stats_send_settled stats_ok_store_settled stats_ok_log_settled)

lemma stats_ok_run:
  "stats_ok (transmissionStats st) \<Longrightarrow> stats_ok (transmissionStats (run st evs))"
  unfolding run_def by (induction evs arbitrary: st) (simp_all add: stats_ok_step)

lemma stats_ok_initial: "stats_ok (transmissionStats initial_state)"
  by (simp add: stats_ok_def initial_state_def)

lemma stats_ok_stored: "stats_ok (getTransmissionStats store)"
  by (simp add: stats_ok_def getTransmissionStats_def Let_def)

text \<open>
  Claim C1.  Whatever events the page has processed since it was mounted (so after
  every tick, and after every stage of every attempt), its statistics satisfy
  \<open>successful \<le> total\<close> and \<open>success_rate = successful / total * 100\<close>, or \<open>0\<close> while
  \<open>total = 0\<close>; and the statistics the store computes from its logs satisfy the same,
  for every content of the store.  The quotient and the product are those of
  JavaScript numbers, as the source computes them and as the float-typed field of the
  data model holds them.
\<close>

theorem statistics_invariant:
  "stats_ok (transmissionStats (run initial_state evs)) \<and>
   stats_ok (getTransmissionStats store)"
  using stats_ok_run [OF stats_ok_initial] stats_ok_stored by blast

text \<open>
  After one success in three attempts the rate is the double \<open>33.33333333333333\<close>,
  which is \<open>4691249611844266 / 2\<^sup>4\<^sup>7\<close>.
\<close>

theorem statistics_invariant_witness:
  "transmissionStats (run initial_state example_one_in_three) =
     \<lparr>totalTransmissions = 3, successfulTransmissions = 1,
      successRate = 4691249611844266 / 2 ^ 47\<rparr> \<and>
   js_mul (js_div 1 3) 100 = 4691249611844266 / 2 ^ 47 \<and>
   stats_ok (transmissionStats (run initial_state example_one_in_three))"
proof -
  have rate: "js_mul (js_div 1 3) 100 = 4691249611844266 / 2 ^ 47"
    by code_simp
  have counts: "totalTransmissions (transmissionStats (run initial_state example_one_in_three)) = 3 \<and>
     successfulTransmissions (transmissionStats (run initial_state example_one_in_three)) = 1"
    by code_simp
  have ok: "stats_ok (transmissionStats (run initial_state example_one_in_three))"
    using statistics_invariant [of example_one_in_three MemStorage_new] by simp
  then have "successRate (transmissionStats (run initial_state example_one_in_three)) =
     js_mul (js_div 1 3) 100"
    using counts by (simp add: stats_ok_def)
  with rate counts ok show ?thesis
    by (cases "transmissionStats (run initial_state example_one_in_three)") simp
qed

section \<open>Skipped ticks\<close>

text \<open>
  Claim C6.  When the location sample or the motion sample is missing, a call of
  \<^verbatim>\<open>sendDataToESP32\<close> returns at its guard and a tick of the scheduler does nothing:
  the whole state is as before, so the statistics are unchanged, no request to the
  persistence routes is issued, and no attempt exists that could record an outcome
  later.
\<close>

theorem missing_sample_skips_tick:
  assumes "gpsData st = None \<or> accelerometerData st = None"
  shows "sendDataToESP32_begin now st = st \<and> step st (Tick now) = st"
  using assms by (auto simp add: sendDataToESP32_begin_def split: option.splits)

theorem missing_sample_skips_tick_witness:
  "isTransmitting example_no_motion \<and> accelerometerData example_no_motion = None \<and>
   sendDataToESP32_begin 10 example_no_motion = example_no_motion \<and>
   step example_no_motion (Tick 10) = example_no_motion"
proof -
  have running: "isTransmitting example_no_motion"
    by code_simp
  have missing: "accelerometerData example_no_motion = None"
    by code_simp
  from missing have "gpsData example_no_motion = None \<or> accelerometerData example_no_motion = None"
    by simp
  from missing_sample_skips_tick [OF this, of 10] running missing show ?thesis
    by simp
qed

section \<open>Starting\<close>

lemma gps_request_result:
  "perm_gps (permissions (requestGPSPermission r st)) =
     (if r = PositionArrived then Granted else Denied) \<and>
   perm_motion (permissions (requestGPSPermission r st)) = perm_motion (permissions st) \<and>
   isTransmitting (requestGPSPermission r st) = isTransmitting st"
  by (simp add: requestGPSPermission_def split: gps_request.splits)

lemma motion_request_result:
  "perm_motion (permissions (requestMotionPermission r st)) =
     (if r = NoRequestFunction \<or> r = PermissionAnswer ''granted'' then Granted else Denied) \<and>
   perm_gps (permissions (requestMotionPermission r st)) = perm_gps (permissions st) \<and>
   isTransmitting (requestMotionPermission r st) = isTransmitting st"
  by (simp add: requestMotionPermission_def split: motion_request.splits)

text \<open>
  Claim C3.  A click on the button while idle: if the page is transmitting afterwards,
  both permissions are granted; if either permission is not granted afterwards, the
  page is still idle and the message is the error \<^verbatim>\<open>Sensor permissions required\<close>; a
  permission that was not granted at the click has been requested, and is afterwards
  what the request made it; and when the location permission was denied before the
  click, the page stays idle with that error.
\<close>

theorem start_requires_permissions:
  assumes "\<not> isTransmitting st"
  shows "(isTransmitting (toggleTransmission gr mr st) \<longrightarrow>
            perm_gps (permissions (toggleTransmission gr mr st)) = Granted \<and>
            perm_motion (permissions (toggleTransmission gr mr st)) = Granted) \<and>
         (perm_gps (permissions (toggleTransmission gr mr st)) \<noteq> Granted \<or>
          perm_motion (permissions (toggleTransmission gr mr st)) \<noteq> Granted \<longrightarrow>
            \<not> isTransmitting (toggleTransmission gr mr st) \<and>
            statusMessage (toggleTransmission gr mr st) =
              Some (MsgError, ''Sensor permissions required'')) \<and>
         (perm_gps (permissions st) \<noteq> Granted \<longrightarrow>
            perm_gps (permissions (toggleTransmission gr mr st)) =
              (if gr = PositionArrived then Granted else Denied)) \<and>
         (perm_motion (permissions st) \<noteq> Granted \<longrightarrow>
            perm_motion (permissions (toggleTransmission gr mr st)) =
              (if mr = NoRequestFunction \<or> mr = PermissionAnswer ''granted''
               then Granted else Denied)) \<and>
         (perm_gps (permissions st) = Denied \<longrightarrow>
            \<not> isTransmitting (toggleTransmission gr mr st) \<and>
            statusMessage (toggleTransmission gr mr st) =
              Some (MsgError, ''Sensor permissions required''))"
  using assms
  by (simp add: toggleTransmission_def Let_def gps_request_result motion_request_result)

theorem start_requires_permissions_witness:
  "\<not> isTransmitting (initial_state\<lparr>permissions := \<lparr>perm_gps = Denied, perm_motion = Granted\<rparr>\<rparr>) \<and>
   \<not> isTransmitting
       (toggleTransmission (PositionError 1) NoRequestFunction
          (initial_state\<lparr>permissions := \<lparr>perm_gps = Denied, perm_motion = Granted\<rparr>\<rparr>)) \<and>
   statusMessage
       (toggleTransmission (PositionError 1) NoRequestFunction
          (initial_state\<lparr>permissions := \<lparr>perm_gps = Denied, perm_motion = Granted\<rparr>\<rparr>)) =
     Some (MsgError, ''Sensor permissions required'')"
  using start_requires_permissions
    [of "initial_state\<lparr>permissions := \<lparr>perm_gps = Denied, perm_motion = Granted\<rparr>\<rparr>"
        "PositionError 1" NoRequestFunction]
  by (simp add: initial_state_def)

text \<open>
  The converse is not claimed and does not hold of a single click: the test reads the
  permissions as they were at the click, so a click that obtains a missing permission
  is refused all the same, and the next click starts the transmission.
\<close>

lemma fresh_grant_still_refused:
  assumes "\<not> isTransmitting st" and "perm_gps (permissions st) \<noteq> Granted"
  shows "\<not> isTransmitting (toggleTransmission PositionArrived NoRequestFunction st) \<and>
     perm_gps (permissions (toggleTransmission PositionArrived NoRequestFunction st)) = Granted \<and>
     perm_motion (permissions (toggleTransmission PositionArrived NoRequestFunction st)) = Granted"
  using assms
  by (simp add: toggleTransmission_def Let_def gps_request_result motion_request_result)

section \<open>Stopping\<close>

lemma idle_step_quiet:
  assumes "\<not> isTransmitting st" "\<not> is_completion e" "\<not> is_toggle e"
  shows "\<not> isTransmitting (step st e) \<and> connectionStatus (step st e) = connectionStatus st \<and>
     transmissionStats (step st e) = transmissionStats st \<and>
     in_flight (step st e) = in_flight st \<and> api_requests (step st e) = api_requests st"
  using assms
  by (cases e)
     (simp_all add: requestGPSPermission_def requestMotionPermission_def
        split: gps_request.splits motion_request.splits)

lemma idle_run_quiet:
  assumes "\<not> isTransmitting st" "\<forall>e \<in> set evs. \<not> is_completion e \<and> \<not> is_toggle e"
  shows "\<not> isTransmitting (run st evs) \<and> connectionStatus (run st evs) = connectionStatus st \<and>
     transmissionStats (run st evs) = transmissionStats st \<and>
     in_flight (run st evs) = in_flight st \<and> api_requests (run st evs) = api_requests st"
  using assms
proof (induction evs arbitrary: st)
  case Nil
  then show ?case by (simp add: run_def)
next
  case (Cons e evs)
  have q: "\<not> isTransmitting (step st e) \<and> connectionStatus (step st e) = connectionStatus st \<and>
     transmissionStats (step st e) = transmissionStats st \<and>
     in_flight (step st e) = in_flight st \<and> api_requests (step st e) = api_requests st"
    using Cons.prems by (intro idle_step_quiet) simp_all
  have r: "run st (e # evs) = run (step st e) evs"
    by (simp add: run_def)
  from Cons.IH [of "step st e"] q Cons.prems(2) show ?case
    unfolding r by simp
qed

text \<open>
  Claim C2, as stated, fails.  In the example the stop button is pressed while an
  attempt waits for \<^verbatim>\<open>sendData\<close>.  The stop leaves the page idle, disconnected and with
  empty statistics; the attempt then resumes, and the page, still idle, shows
  \<open>Connected\<close> and counts one transmission.  Nothing in \<^verbatim>\<open>sendDataToESP32\<close> looks at
  \<^verbatim>\<open>isTransmitting\<close> after its first await.
\<close>

theorem stop_discards_in_flight_counterexample:
  "isTransmitting example_running \<and>
   \<not> isTransmitting example_stopped \<and>
   connectionStatus example_stopped = Disconnected \<and>
   transmissionStats example_stopped =
     \<lparr>totalTransmissions = 0, successfulTransmissions = 0, successRate = 0\<rparr> \<and>
   \<not> isTransmitting example_after_stop \<and>
   connectionStatus example_after_stop = Connected \<and>
   transmissionStats example_after_stop =
     \<lparr>totalTransmissions = 1, successfulTransmissions = 1, successRate = 100\<rparr>"
  by code_simp

text \<open>
  Claim C2, amended.  A stop leaves the page idle and disconnected, with the statistics,
  the attempts and the issued requests as they were, and this stays so under every
  further event that is neither a click on the button nor the resumption of an attempt:
  the scheduler starts no new attempt, and sensor callbacks, address edits and
  permission results touch none of these.  An attempt that was waiting when the stop
  came is not discarded: when its \<^verbatim>\<open>sendData\<close> settles, the connection status becomes
  what the result says, and when its log post settles, the statistics count it.
\<close>

theorem stop_halts_scheduling:
  assumes "isTransmitting st" and "\<forall>e \<in> set evs. \<not> is_completion e \<and> \<not> is_toggle e"
  shows "\<not> isTransmitting (run (step st (Toggle gr mr)) evs) \<and>
     connectionStatus (run (step st (Toggle gr mr)) evs) = Disconnected \<and>
     transmissionStats (run (step st (Toggle gr mr)) evs) = transmissionStats st \<and>
     in_flight (run (step st (Toggle gr mr)) evs) = in_flight st \<and>
     api_requests (run (step st (Toggle gr mr)) evs) = api_requests st \<and>
     (i < length (in_flight st) \<and> att_stage (in_flight st ! i) = AwaitSend \<longrightarrow>
        connectionStatus
          (step (run (step st (Toggle gr mr)) evs) (SendSettled i direct relay now)) =
          (if success (sendData_outcome direct relay) = Some True
           then Connected else Disconnected)) \<and>
     (i < length (in_flight st) \<and> att_stage (in_flight st ! i) = AwaitLog result \<longrightarrow>
        transmissionStats (step (run (step st (Toggle gr mr)) evs) (LogSettled i ok)) =
          update_stats result (transmissionStats st))"
proof -
  define stopped where "stopped = step st (Toggle gr mr)"
  define later where "later = run stopped evs"
  have s: "\<not> isTransmitting stopped \<and> connectionStatus stopped = Disconnected \<and>
     transmissionStats stopped = transmissionStats st \<and>
     in_flight stopped = in_flight st \<and> api_requests stopped = api_requests st"
    using assms(1) by (simp add: stopped_def toggleTransmission_def)
  then have idle: "\<not> isTransmitting stopped"
    by simp
  have l: "\<not> isTransmitting later \<and> connectionStatus later = Disconnected \<and>
     transmissionStats later = transmissionStats st \<and>
     in_flight later = in_flight st \<and> api_requests later = api_requests st"
    using idle_run_quiet [OF idle assms(2)] s unfolding later_def by simp
  have send: "i < length (in_flight st) \<and> att_stage (in_flight st ! i) = AwaitSend \<longrightarrow>
        connectionStatus (step later (SendSettled i direct relay now)) =
          (if success (sendData_outcome direct relay) = Some True
           then Connected else Disconnected)"
    using l by (simp add: send_settled_def Let_def)
  have log: "i < length (in_flight st) \<and> att_stage (in_flight st ! i) = AwaitLog result \<longrightarrow>
        transmissionStats (step later (LogSettled i ok)) =
          update_stats result (transmissionStats st)"
    using l by (simp add: log_settled_def)
  from l send log show ?thesis
    unfolding later_def stopped_def by blast
qed

theorem stop_halts_scheduling_witness:
  "isTransmitting example_running \<and>
   connectionStatus
     (run (step example_running (Toggle PositionArrived NoRequestFunction))
        [Tick 12, IpInput ''10.0.0.7'', ClientEffect, Tick 14]) = Disconnected \<and>
   in_flight
     (run (step example_running (Toggle PositionArrived NoRequestFunction))
        [Tick 12, IpInput ''10.0.0.7'', ClientEffect, Tick 14]) = in_flight example_running \<and>
   connectionStatus
     (step (run (step example_running (Toggle PositionArrived NoRequestFunction))
              [Tick 12, IpInput ''10.0.0.7'', ClientEffect, Tick 14])
        (SendSettled 0 (Response 200) (Threw NonError) 15)) = Connected"
proof -
  have running: "isTransmitting example_running"
    by code_simp
  have evs: "\<forall>e \<in> set [Tick 12, IpInput ''10.0.0.7'', ClientEffect, Tick 14].
               \<not> is_completion e \<and> \<not> is_toggle e"
    by simp
  have waiting: "0 < length (in_flight example_running) \<and>
     att_stage (in_flight example_running ! 0) = AwaitSend"
    by code_simp
  have ok: "success (sendData_outcome (Response 200) (Threw NonError)) = Some True"
    by (simp add: sendData_outcome_def direct_attempt_def response_ok_def)
  from stop_halts_scheduling [OF running evs, of PositionArrived NoRequestFunction
      0 "Response 200" "Threw NonError" 15] running waiting ok
  show ?thesis
    by simp
qed

section \<open>Retrieving samples\<close>

lemmas parse_defs = parseInt_def parse_unsigned_def parse_digits_def digits_value_def
  digit_value_def is_js_space_def units_def

lemma parseInt_undefined: "parseInt (units ''undefined'') = None"
  by (simp add: parse_defs)

lemma js_slice0_nat: "js_slice0 xs (int n) = take n xs"
  by (simp add: js_slice0_def Let_def min_def)

lemma sorted_desc_sort_key:
  "sorted_wrt (\<lambda>a b. sd_timestamp b \<le> sd_timestamp a) (sort_key (\<lambda>d. - sd_timestamp d) xs)"
proof -
  have "sorted (map (\<lambda>d. - sd_timestamp d) (sort_key (\<lambda>d. - sd_timestamp d) xs))"
    by (rule sorted_sort_key)
  then show ?thesis
    by (simp add: sorted_wrt_map)
qed

lemma take_sorted_most_recent:
  "most_recent_first n xs (take n (sort_key (\<lambda>d. - sd_timestamp d) xs))"
proof -
  define S where "S = sort_key (\<lambda>d. - sd_timestamp d) xs"
  have sw: "sorted_wrt (\<lambda>a b. sd_timestamp b \<le> sd_timestamp a) (take n S @ drop n S)"
    unfolding S_def by (simp add: sorted_desc_sort_key)
  have len: "length (take n S) = min n (length xs)"
    by (simp add: S_def min.commute)
  have ms: "mset xs = mset (take n S) + mset (drop n S)"
  proof -
    have "mset (take n S @ drop n S) = mset xs"
      by (simp add: S_def)
    then show ?thesis
      by (simp only: mset_append)
  qed
  have front: "sorted_wrt (\<lambda>a b. sd_timestamp b \<le> sd_timestamp a) (take n S)"
    using sw unfolding sorted_wrt_append by blast
  have cross: "\<forall>a \<in> set (take n S). \<forall>b \<in> set (drop n S). sd_timestamp b \<le> sd_timestamp a"
    using sw unfolding sorted_wrt_append by blast
  show ?thesis
    unfolding most_recent_first_def S_def [symmetric]
    using len front ms cross by blast
qed

lemma getRecent_most_recent:
  "most_recent_first n (map_values (sensorData st)) (getRecentSensorData st (int n))"
  by (simp add: getRecentSensorData_def Let_def js_slice0_nat take_sorted_most_recent)

lemma query_limit_positive:
  "parseInt s = Some (int n) \<Longrightarrow> 1 \<le> n \<Longrightarrow> query_limit (Some s) = int n"
  by (simp add: query_limit_def)

text \<open>
  Claim C7, as stated for every \<open>N\<close>, fails at the endpoint for \<open>N = 0\<close>: with one
  sample stored, \<^verbatim>\<open>GET /api/sensor-data?limit=0\<close> answers with that sample, not with
  the empty list, since the handler replaces a limit of zero by 10.
\<close>

theorem retrieval_limit_zero_counterexample:
  "parseInt (units ''0'') = Some 0 \<and>
   length (map_values (sensorData one_sample_store)) = 1 \<and>
   length (get_sensor_data one_sample_store (Some (units ''0''))) = 1 \<and>
   \<not> most_recent_first 0 (map_values (sensorData one_sample_store))
        (get_sensor_data one_sample_store (Some (units ''0'')))"
proof -
  have p: "parseInt (units ''0'') = Some 0"
    by (simp add: parse_defs)
  have stored: "length (map_values (sensorData one_sample_store)) = 1"
    by code_simp
  have ten: "length (getRecentSensorData one_sample_store 10) = 1"
    by code_simp
  have got: "length (get_sensor_data one_sample_store (Some (units ''0''))) = 1"
    using ten by (simp add: get_sensor_data_def query_limit_def p)
  from p stored got show ?thesis
    by (simp add: most_recent_first_def)
qed

text \<open>
  Claim C7, amended.  For every content of the store and every natural number \<open>n\<close>, the
  store's \<^verbatim>\<open>getRecentSensorData\<close> with limit \<open>n\<close> returns the \<open>n\<close> most recent samples
  (all of them when fewer are stored), newest first; and so does the endpoint for every
  limit parameter that parses to an \<open>n \<ge> 1\<close>.
\<close>

theorem retrieval_most_recent_first:
  "most_recent_first n (map_values (sensorData st)) (getRecentSensorData st (int n)) \<and>
   (1 \<le> n \<and> parseInt s = Some (int n) \<longrightarrow>
      most_recent_first n (map_values (sensorData st)) (get_sensor_data st (Some s)))"
  by (simp add: get_sensor_data_def query_limit_positive getRecent_most_recent)

theorem retrieval_most_recent_first_witness:
  "(1::nat) \<le> 2 \<and> parseInt (units ''2'') = Some (int 2) \<and>
   map sd_id (map_values (sensorData example_store)) = [1, 2, 3] \<and>
   map sd_timestamp (map_values (sensorData example_store)) = [3000, 1000, 2000] \<and>
   map sd_id (get_sensor_data example_store (Some (units ''2''))) = [1, 3] \<and>
   most_recent_first 2 (map_values (sensorData example_store))
     (get_sensor_data example_store (Some (units ''2'')))"
proof -
  have p: "parseInt (units ''2'') = Some (int 2)"
    by (simp add: parse_defs)
  have ids: "map sd_id (map_values (sensorData example_store)) = [1, 2, 3]"
    by code_simp
  have ts: "map sd_timestamp (map_values (sensorData example_store)) = [3000, 1000, 2000]"
    by code_simp
  have two: "map sd_id (getRecentSensorData example_store 2) = [1, 3]"
    by code_simp
  have got: "map sd_id (get_sensor_data example_store (Some (units ''2''))) = [1, 3]"
    using two by (simp add: get_sensor_data_def query_limit_def p)
  from retrieval_most_recent_first [of 2 example_store "units ''2''"] p ids ts got
  show ?thesis
    by simp
qed

text \<open>
  Claim C8.  The limit the endpoint uses is 10 when the parameter is absent, when
  \<^verbatim>\<open>parseInt\<close> finds no integer in it, and when it parses to 0; and with that limit the
  endpoint answers with \<^verbatim>\<open>getRecentSensorData(10)\<close>.
\<close>

theorem default_limit:
  "query_limit None = 10 \<and>
   (parseInt s = None \<longrightarrow> query_limit (Some s) = 10) \<and>
   (parseInt s = Some 0 \<longrightarrow> query_limit (Some s) = 10) \<and>
   (query_limit q = 10 \<longrightarrow> get_sensor_data st q = getRecentSensorData st 10)"
  by (simp add: query_limit_def get_sensor_data_def parseInt_undefined)

theorem default_limit_witness:
  "parseInt (units ''abc'') = None \<and> query_limit (Some (units ''abc'')) = 10 \<and>
   parseInt (units ''0'') = Some 0 \<and> query_limit (Some (units ''0'')) = 10 \<and>
   parseInt [160, 48] = Some 0 \<and> query_limit (Some [160, 48]) = 10 \<and>
   get_sensor_data example_store (Some (units ''0'')) = getRecentSensorData example_store 10 \<and>
   get_sensor_data example_store None = getRecentSensorData example_store 10"
proof -
  have a: "parseInt (units ''abc'') = None"
    by (simp add: parse_defs)
  have z: "parseInt (units ''0'') = Some 0"
    by (simp add: parse_defs)
  have n: "parseInt [160, 48] = Some 0"
    by (simp add: parse_defs)
  from default_limit [of "units ''abc''" "Some (units ''abc'')" example_store]
    default_limit [of "units ''0''" "Some (units ''0'')" example_store]
    default_limit [of "[160, 48]" None example_store] a z n
  show ?thesis
    by simp
qed

text \<open>
  A no-break space before the digits is skipped like any other white space: the limit
  parameter \<^verbatim>\<open>%C2%A02\<close> is read as 2.
\<close>

lemma limit_after_no_break_space:
  "parseInt [160, 50] = Some 2 \<and> query_limit (Some [160, 50]) = 2"
  by (simp add: query_limit_def parse_defs)

section \<open>The client's result\<close>

text \<open>
  Claim C9.  \<^verbatim>\<open>testConnection\<close> returns what \<^verbatim>\<open>sendData\<close> returns for the same address
  and the sample with latitude 0, longitude 0, no accuracy and acceleration 0 on each
  axis, stamped with the current time.
\<close>

theorem testConnection_sends_zero_sample:
  "testConnection net ipAddress now =
     sendData net ipAddress
       \<lparr>data_gps = \<lparr>latitude = 0, longitude = 0, accuracy = None\<rparr>,
        data_accelerometer = \<lparr>acc_x = 0, acc_y = 0, acc_z = 0\<rparr>,
        data_timestamp = now\<rparr>"
  by (simp add: testConnection_def)

lemma relay_success_body:
  "b_success (body (test_esp32 ip payload device)) = Some True \<Longrightarrow>
   b_error (body (test_esp32 ip payload device)) = None"
  by (auto simp add: test_esp32_def split: fetch_outcome.splits if_splits)

lemma relay_failure_body:
  "b_success (body (test_esp32 ip payload device)) \<noteq> Some True \<Longrightarrow>
   b_error (body (test_esp32 ip payload device)) \<noteq> None"
  by (auto simp add: test_esp32_def split: fetch_outcome.splits if_splits)

text \<open>
  Claim C5.  When the direct call fails (a status outside 200..299, or a rejected
  \<^verbatim>\<open>fetch\<close>) and the relay call delivers the relay handler's answer, and that answer
  reports success, \<^verbatim>\<open>sendData\<close> returns success true and no error.
\<close>

theorem relay_success_is_success:
  assumes "direct_attempt
             (direct_fetch net (''http://'' @ ipAddress @ ''/sensor-data'') payload) \<noteq> None"
    and "relay_call net ipAddress payload =
           Returned (body (test_esp32 (Some ipAddress) (Some payload) device))"
    and "b_success (body (test_esp32 (Some ipAddress) (Some payload) device)) = Some True"
  shows "sendData net ipAddress payload = \<lparr>success = Some True, error = None\<rparr>"
  using assms relay_success_body [OF assms(3)]
  by (auto simp add: sendData_def sendData_outcome_def)

theorem relay_success_is_success_witness:
  "direct_attempt
     (direct_fetch example_net (''http://'' @ ''192.168.1.50'' @ ''/sensor-data'')
        example_payload) = Some (Error ''Failed to fetch'') \<and>
   sendData example_net ''192.168.1.50'' example_payload = \<lparr>success = Some True, error = None\<rparr>"
proof -
  have d: "direct_attempt
     (direct_fetch example_net (''http://'' @ ''192.168.1.50'' @ ''/sensor-data'')
        example_payload) = Some (Error ''Failed to fetch'')"
    by (simp add: example_net_def direct_attempt_def)
  then have d': "direct_attempt
     (direct_fetch example_net (''http://'' @ ''192.168.1.50'' @ ''/sensor-data'')
        example_payload) \<noteq> None"
    by simp
  have r: "relay_call example_net ''192.168.1.50'' example_payload =
     Returned (body (test_esp32 (Some ''192.168.1.50'') (Some example_payload) (Response 200)))"
    by (simp add: example_net_def)
  have s: "b_success
     (body (test_esp32 (Some ''192.168.1.50'') (Some example_payload) (Response 200))) = Some True"
    by (simp add: test_esp32_def response_ok_def)
  from relay_success_is_success [OF d' r s] d show ?thesis
    by simp
qed




end
